theory Spec2Isabelle
  imports Complex_Main
begin

section \<open>Errors and external outcomes\<close>

text \<open>
  Python exceptions that the modelled functions can raise or catch. \<open>CsvError\<close> is
  \<open>csv.Error\<close>; \<open>OtherException\<close> stands for any exception of class \<open>Exception\<close>
  coming out of the geometry kernel.
\<close>

datatype py_error = ValueError | IndexError | CsvError | OtherException

text \<open>
  One run of \<open>BRepExtrema_DistShapeShape\<close> on a pair of shapes (the calls \<open>LoadS1\<close>,
  \<open>LoadS2\<close>, \<open>Perform\<close>, \<open>IsDone\<close>, \<open>Value\<close>): a call raises, or \<open>IsDone()\<close> is
  false, or \<open>IsDone()\<close> is true and \<open>Value()\<close> is the distance. Distances and the
  tolerance are Python floats, read here as the real numbers they denote.
\<close>

datatype extrema = Raises | NotDone | Done real

section \<open>The analyzer state\<close>

record 'p analyzer =
  tolerance :: real
  parts :: "'p list"
  contact_matrix :: "int list list option"
  part_names :: "string list"

definition init_analyzer :: "real \<Rightarrow> 'p analyzer" where
  "init_analyzer tol =
     \<lparr>tolerance = tol, parts = [], contact_matrix = None, part_names = []\<rparr>"

section \<open>Integer matrices\<close>

text \<open>
  A numpy integer matrix is a list of rows. \<open>zeros\<close> is \<open>np.zeros((n, m), dtype=int)\<close>,
  \<open>mat_set\<close> the assignment \<open>M[i, j] = v\<close> for indices in range (the only ones the
  matrix builder writes), \<open>fill_diagonal\<close> is \<open>np.fill_diagonal\<close> on a square matrix.
\<close>

definition zeros :: "nat \<Rightarrow> nat \<Rightarrow> int list list" where
  "zeros n m = replicate n (replicate m 0)"

definition mat_set :: "int list list \<Rightarrow> nat \<Rightarrow> nat \<Rightarrow> int \<Rightarrow> int list list" where
  "mat_set M i j v = M[i := (M ! i)[j := v]]"

definition square :: "nat \<Rightarrow> int list list \<Rightarrow> bool" where
  "square n M = (length M = n \<and> list_all (\<lambda>r. length r = n) M)"

text \<open>
  Reading \<open>M[i, j]\<close>: numpy raises \<open>IndexError\<close> for an index beyond the shape.
\<close>

definition mat_read :: "int list list \<Rightarrow> nat \<Rightarrow> nat \<Rightarrow> py_error + int" where
  "mat_read M i j =
     (if i < length M \<and> j < length (M ! i) then Inr (M ! i ! j) else Inl IndexError)"

definition fill_diagonal :: "int list list \<Rightarrow> int \<Rightarrow> int list list" where
  "fill_diagonal M v = fold (\<lambda>i A. mat_set A i i v) [0..<length M] M"

section \<open>Pair contact test\<close>

text \<open>
  The body of the \<open>try\<close> block of \<open>_are_parts_in_contact\<close>: the value it returns, or
  the exception that leaves it.
\<close>

definition contact_try_body :: "real \<Rightarrow> extrema \<Rightarrow> py_error + bool" where
  "contact_try_body tol q =
     (case q of
        Raises \<Rightarrow> Inl OtherException
      | NotDone \<Rightarrow> Inr False
      | Done min_distance \<Rightarrow> Inr (min_distance \<le> tol))"

text \<open>
  \<open>_are_parts_in_contact\<close>: the \<open>except Exception\<close> handler turns every exception of
  the body into \<open>False\<close>. The first argument is the analyzer's tolerance, the second
  the geometry kernel's answer for each pair of shapes.
\<close>

definition are_parts_in_contact ::
  "real \<Rightarrow> ('p \<Rightarrow> 'p \<Rightarrow> extrema) \<Rightarrow> 'p \<Rightarrow> 'p \<Rightarrow> bool" where
  "are_parts_in_contact tol query part1 part2 =
     (case contact_try_body tol (query part1 part2) of
        Inl e \<Rightarrow> False
      | Inr b \<Rightarrow> b)"

section \<open>Building the contact matrix\<close>

text \<open>
  The inner loop \<open>for j in range(i + 1, n_parts)\<close> and the outer loop
  \<open>for i in range(n_parts)\<close> of \<open>compute_contact_matrix\<close>, over the matrix under
  construction.
\<close>

definition contact_row ::
  "('p \<Rightarrow> 'p \<Rightarrow> bool) \<Rightarrow> 'p list \<Rightarrow> nat \<Rightarrow> int list list \<Rightarrow> int list list" where
  "contact_row c ps i M =
     fold (\<lambda>j A. if c (ps ! i) (ps ! j) then mat_set (mat_set A i j 1) j i 1 else A)
       [Suc i..<length ps] M"

definition contact_loops ::
  "('p \<Rightarrow> 'p \<Rightarrow> bool) \<Rightarrow> 'p list \<Rightarrow> int list list \<Rightarrow> int list list" where
  "contact_loops c ps M = fold (contact_row c ps) [0..<length ps] M"

text \<open>
  \<open>compute_contact_matrix\<close> returns the matrix and stores it in the analyzer.
\<close>

definition compute_contact_matrix ::
  "('p \<Rightarrow> 'p \<Rightarrow> extrema) \<Rightarrow> 'p analyzer \<Rightarrow> int list list \<times> 'p analyzer" where
  "compute_contact_matrix query a =
     (let n = length (parts a);
          M = fill_diagonal
                (contact_loops (are_parts_in_contact (tolerance a) query) (parts a)
                   (zeros n n)) 1
      in (M, a\<lparr>contact_matrix := Some M\<rparr>))"


section \<open>The contact graph\<close>

text \<open>
  The part of \<open>networkx.Graph\<close> that \<open>get_contact_graph\<close> uses: the nodes in
  insertion order, each with its \<open>name\<close> attribute when it has one, and the
  undirected edges. \<open>add_node\<close> is \<open>G.add_node(i, name=name)\<close>; \<open>add_edge\<close>
  is \<open>G.add_edge(i, j)\<close>, which creates a missing endpoint without attributes and
  keeps one edge per unordered pair.
\<close>

record graph =
  nodes :: "(nat \<times> string option) list"
  edges :: "(nat \<times> nat) list"

definition empty_graph :: graph where
  "empty_graph = \<lparr>nodes = [], edges = []\<rparr>"

definition has_node :: "graph \<Rightarrow> nat \<Rightarrow> bool" where
  "has_node G i = list_ex (\<lambda>kv. fst kv = i) (nodes G)"

definition add_node :: "graph \<Rightarrow> nat \<Rightarrow> string \<Rightarrow> graph" where
  "add_node G i name =
     (if has_node G i
      then G\<lparr>nodes := map (\<lambda>kv. if fst kv = i then (i, Some name) else kv) (nodes G)\<rparr>
      else G\<lparr>nodes := nodes G @ [(i, Some name)]\<rparr>)"

definition touch_node :: "graph \<Rightarrow> nat \<Rightarrow> graph" where
  "touch_node G i = (if has_node G i then G else G\<lparr>nodes := nodes G @ [(i, None)]\<rparr>)"

definition has_edge :: "graph \<Rightarrow> nat \<Rightarrow> nat \<Rightarrow> bool" where
  "has_edge G u v = list_ex (\<lambda>e. e = (u, v) \<or> e = (v, u)) (edges G)"

definition add_edge :: "graph \<Rightarrow> nat \<Rightarrow> nat \<Rightarrow> graph" where
  "add_edge G u v =
     (let G' = touch_node (touch_node G u) v
      in if has_edge G' u v then G' else G'\<lparr>edges := edges G' @ [(u, v)]\<rparr>)"

definition number_of_nodes :: "graph \<Rightarrow> nat" where
  "number_of_nodes G = length (nodes G)"

definition number_of_edges :: "graph \<Rightarrow> nat" where
  "number_of_edges G = length (edges G)"

text \<open>
  The two edge loops of \<open>get_contact_graph\<close>; a read of the matrix out of range
  ends them with the exception.
\<close>

fun edge_scan :: "int list list \<Rightarrow> nat \<Rightarrow> nat list \<Rightarrow> graph \<Rightarrow> py_error + graph" where
  "edge_scan M i [] G = Inr G"
| "edge_scan M i (j # js) G =
     (case mat_read M i j of
        Inl e \<Rightarrow> Inl e
      | Inr v \<Rightarrow> edge_scan M i js (if v = 1 then add_edge G i j else G))"

fun edge_rows :: "int list list \<Rightarrow> nat \<Rightarrow> nat list \<Rightarrow> graph \<Rightarrow> py_error + graph" where
  "edge_rows M n [] G = Inr G"
| "edge_rows M n (i # is) G =
     (case edge_scan M i [Suc i..<n] G of
        Inl e \<Rightarrow> Inl e
      | Inr G' \<Rightarrow> edge_rows M n is G')"

definition get_contact_graph :: "'p analyzer \<Rightarrow> py_error + graph" where
  "get_contact_graph a =
     (case contact_matrix a of
        None \<Rightarrow> Inl ValueError
      | Some M \<Rightarrow>
          (let G = fold (\<lambda>(i, name) H. add_node H i name)
                     (enumerate 0 (part_names a)) empty_graph;
               n = length (parts a)
           in edge_rows M n [0..<n] G))"

section \<open>Matrix statistics\<close>

text \<open>
  The dictionary returned by \<open>analyze_contact_matrix_properties\<close>, one field per key.
  numpy's 64-bit integers are read as unbounded integers and its floats as reals.
\<close>

record analysis =
  n_parts :: nat
  total_contacts :: int
  contact_density :: real
  max_connections :: int
  min_connections :: int
  avg_connections :: real
  isolated_parts :: nat

definition np_sum :: "int list list \<Rightarrow> int" where
  "np_sum M = sum_list (map sum_list M)"

text \<open>
  \<open>np.max\<close> and \<open>np.min\<close> of a one-dimensional array raise \<open>ValueError\<close> on an
  array of size zero.
\<close>

fun np_max :: "int list \<Rightarrow> py_error + int" where
  "np_max [] = Inl ValueError"
| "np_max (x # xs) = Inr (fold max xs x)"

fun np_min :: "int list \<Rightarrow> py_error + int" where
  "np_min [] = Inl ValueError"
| "np_min (x # xs) = Inr (fold min xs x)"

text \<open>
  \<open>np.mean\<close> of a one-dimensional array. On an empty array numpy gives \<open>nan\<close> with a
  warning; the function below is reached with a non-empty array only, after \<open>np.max\<close>
  and \<open>np.min\<close> have returned.
\<close>

definition np_mean :: "int list \<Rightarrow> real" where
  "np_mean xs = real_of_int (sum_list xs) / real (length xs)"

definition analyze_contact_matrix_properties :: "int list list \<Rightarrow> py_error + analysis" where
  "analyze_contact_matrix_properties M =
     (let n = length M;
          total = np_sum M div 2;
          max_possible_contacts = int n * (int n - 1) div 2;
          density = (if max_possible_contacts > 0
                     then real_of_int total / real_of_int max_possible_contacts else 0);
          degree_sequence = map (\<lambda>row. sum_list row - 1) M
      in case np_max degree_sequence of
           Inl e \<Rightarrow> Inl e
         | Inr mx \<Rightarrow>
             (case np_min degree_sequence of
                Inl e \<Rightarrow> Inl e
              | Inr mn \<Rightarrow>
                  Inr \<lparr>n_parts = n, total_contacts = total, contact_density = density,
                       max_connections = mx, min_connections = mn,
                       avg_connections = np_mean degree_sequence,
                       isolated_parts = length (filter (\<lambda>d. d = 0) degree_sequence)\<rparr>))"

section \<open>Loading a STEP file\<close>

text \<open>
  What the STEP reader does on the given file, as far as \<open>load_step_file\<close> observes
  it. The explorer is the sequence of its answers: \<open>More()\<close> true with the current
  solid, \<open>More()\<close> false, or a call that raises.
\<close>

datatype 'p explorer = ExplorerEnd | ExplorerRaises | Current 'p "'p explorer"

datatype 'p transfer = TransferRaises | OneShape "'p explorer"

datatype 'p step_reader = ReadFileRaises | ReadFile int "'p transfer"

definition digit_char :: "nat \<Rightarrow> char" where
  "digit_char d = ''0123456789'' ! d"

fun str_nat :: "nat \<Rightarrow> string" where
  "str_nat n = (if n < 10 then [digit_char n] else str_nat (n div 10) @ [digit_char (n mod 10)])"

text \<open>
  The \<open>while explorer.More()\<close> loop; an exception inside it reaches the handler,
  which returns \<open>False\<close> with the lists as they are at that moment.
\<close>

fun explore :: "'p explorer \<Rightarrow> nat \<Rightarrow> 'p analyzer \<Rightarrow> bool \<times> 'p analyzer" where
  "explore ExplorerEnd part_index a = (True, a)"
| "explore ExplorerRaises part_index a = (False, a)"
| "explore (Current solid rest) part_index a =
     explore rest (Suc part_index)
       (a\<lparr>parts := parts a @ [solid],
          part_names := part_names a @ [''Part_'' @ str_nat part_index]\<rparr>)"

definition load_step_file :: "'p step_reader \<Rightarrow> 'p analyzer \<Rightarrow> bool \<times> 'p analyzer" where
  "load_step_file reader a =
     (case reader of
        ReadFileRaises \<Rightarrow> (False, a)
      | ReadFile status t \<Rightarrow>
          if status \<noteq> 1 then (False, a)
          else (case t of
                  TransferRaises \<Rightarrow> (False, a)
                | OneShape shape \<Rightarrow> explore shape 0 (a\<lparr>parts := [], part_names := []\<rparr>)))"

text \<open>The explorer that yields the given solids and ends.\<close>

definition solids :: "'p list \<Rightarrow> 'p explorer" where
  "solids ss = foldr Current ss ExplorerEnd"


section \<open>A three-part assembly\<close>

text \<open>
  Three parts in a row: parts 0 and 1 are 0.0005 apart, parts 1 and 2 are 0.0008 apart,
  every other pair is 5.0 apart; the tolerance is 0.001.
\<close>

definition scenario_query :: "nat \<Rightarrow> nat \<Rightarrow> extrema" where
  "scenario_query p q =
     (if p = 0 \<and> q = 1 then Done (5 / 10000)
      else if p = 1 \<and> q = 2 then Done (8 / 10000)
      else Done 5)"

definition scenario :: "nat analyzer" where
  "scenario = \<lparr>tolerance = 1 / 1000, parts = [0, 1, 2], contact_matrix = None,
                part_names = [''Part_0'', ''Part_1'', ''Part_2'']\<rparr>"

text \<open>
  The same parts with a kernel that raises on the pair (0, 1) and does not converge on
  the pair (0, 2).
\<close>

definition failing_query :: "nat \<Rightarrow> nat \<Rightarrow> extrema" where
  "failing_query p q =
     (if p = 0 \<and> q = 1 then Raises
      else if p = 0 \<and> q = 2 then NotDone
      else Done 0)"

section \<open>CSV export and import\<close>

text \<open>
  The text of the exported file, character by character. \<open>export_contact_matrix_csv\<close>
  returns the text it writes; \<open>load_contact_matrix_csv\<close> takes the text of the file it
  opens. The export opens the file with \<open>newline=''\<close>, so the text is written as it
  is; the import opens it with the default \<open>newline=None\<close>, so the text is read with
  universal newlines.
\<close>

definition CR :: char where "CR = CHR 0x0D"
definition LF :: char where "LF = CHR 0x0A"
definition DQUOTE :: char where "DQUOTE = CHR 0x22"
definition COMMA :: char where "COMMA = CHR '',''"

text \<open>\<open>str\<close> of a Python integer, the form in which the writer puts a matrix entry.\<close>

definition str_int :: "int \<Rightarrow> string" where
  "str_int i = (if i < 0 then CHR ''-'' # str_nat (nat (- i)) else str_nat (nat i))"

text \<open>
  \<open>csv.writer\<close> with the default dialect (delimiter comma, quote character \<open>"\<close>,
  doubled quotes, line terminator CR LF, minimal quoting): a field is quoted when it
  holds the delimiter, the quote character or a character of the line terminator, and a
  row made of one empty field is written as two quote characters.
\<close>

definition needs_quote :: "string \<Rightarrow> bool" where
  "needs_quote s = list_ex (\<lambda>c. c = COMMA \<or> c = DQUOTE \<or> c = CR \<or> c = LF) s"

definition quote_field :: "string \<Rightarrow> string" where
  "quote_field s = DQUOTE # concat (map (\<lambda>c. if c = DQUOTE then [DQUOTE, DQUOTE] else [c]) s) @ [DQUOTE]"

definition write_field :: "string \<Rightarrow> string" where
  "write_field s = (if needs_quote s then quote_field s else s)"

fun join_fields :: "string list \<Rightarrow> string" where
  "join_fields [] = []"
| "join_fields [f] = f"
| "join_fields (f # g # fs) = f @ COMMA # join_fields (g # fs)"

definition writerow :: "string list \<Rightarrow> string" where
  "writerow row =
     (if row = [[]] then [DQUOTE, DQUOTE] else join_fields (map write_field row)) @ [CR, LF]"

text \<open>
  The loop \<open>for i, part_name in enumerate(part_names)\<close> of the export; reading row
  \<open>i\<close> of a matrix with fewer rows raises \<open>IndexError\<close>.
\<close>

fun export_rows :: "int list list \<Rightarrow> (nat \<times> string) list \<Rightarrow> py_error + string" where
  "export_rows M [] = Inr []"
| "export_rows M ((i, part_name) # rest) =
     (if i < length M
      then (case export_rows M rest of
              Inl e \<Rightarrow> Inl e
            | Inr out \<Rightarrow> Inr (writerow (part_name # map str_int (M ! i)) @ out))
      else Inl IndexError)"

definition export_contact_matrix_csv :: "int list list \<Rightarrow> string list \<Rightarrow> py_error + string" where
  "export_contact_matrix_csv M names =
     (case export_rows M (enumerate 0 names) of
        Inl e \<Rightarrow> Inl e
      | Inr out \<Rightarrow> Inr (writerow ([] # names) @ out))"

text \<open>
  Reading in text mode with universal newlines: CR LF and a lone CR both arrive as LF.
  \<open>readlines\<close> is the iteration over the lines of the file, each with its final LF.
\<close>

fun universal_newlines :: "string \<Rightarrow> string" where
  "universal_newlines [] = []"
| "universal_newlines [c] = (if c = CR then [LF] else [c])"
| "universal_newlines (c # d # cs) =
     (if c = CR \<and> d = LF then LF # universal_newlines cs
      else if c = CR then LF # universal_newlines (d # cs)
      else c # universal_newlines (d # cs))"

fun readlines :: "string \<Rightarrow> string \<Rightarrow> string list" where
  "readlines [] cur = (if cur = [] then [] else [cur])"
| "readlines (c # cs) cur =
     (if c = LF then (cur @ [c]) # readlines cs [] else readlines cs (cur @ [c]))"

text \<open>
  \<open>csv.reader\<close> with the default dialect: the states of its parser, the field and
  the row under construction, and its step on one character; \<open>None\<close> is the end of a
  line. The dialect has no escape character, does not skip initial spaces and is not
  strict. The limit on the size of a field (131072 characters) is left out.
\<close>

datatype parser_state =
  START_RECORD | START_FIELD | IN_FIELD | IN_QUOTED_FIELD | QUOTE_IN_QUOTED_FIELD | EAT_CRNL

record reader =
  st :: parser_state
  cur_field :: string
  row_fields :: "string list"

definition parse_reset :: reader where
  "parse_reset = \<lparr>st = START_RECORD, cur_field = [], row_fields = []\<rparr>"

definition parse_save_field :: "reader \<Rightarrow> reader" where
  "parse_save_field r = r\<lparr>row_fields := row_fields r @ [cur_field r], cur_field := []\<rparr>"

definition parse_add_char :: "reader \<Rightarrow> char \<Rightarrow> reader" where
  "parse_add_char r c = r\<lparr>cur_field := cur_field r @ [c]\<rparr>"

definition start_field :: "reader \<Rightarrow> char option \<Rightarrow> reader" where
  "start_field r c =
     (case c of
        None \<Rightarrow> (parse_save_field r)\<lparr>st := START_RECORD\<rparr>
      | Some ch \<Rightarrow>
          if ch = LF \<or> ch = CR then (parse_save_field r)\<lparr>st := EAT_CRNL\<rparr>
          else if ch = DQUOTE then r\<lparr>st := IN_QUOTED_FIELD\<rparr>
          else if ch = COMMA then (parse_save_field r)\<lparr>st := START_FIELD\<rparr>
          else (parse_add_char r ch)\<lparr>st := IN_FIELD\<rparr>)"

definition parse_process_char :: "reader \<Rightarrow> char option \<Rightarrow> py_error + reader" where
  "parse_process_char r c =
     (case st r of
        START_RECORD \<Rightarrow>
          (case c of
             None \<Rightarrow> Inr r
           | Some ch \<Rightarrow>
               if ch = LF \<or> ch = CR then Inr (r\<lparr>st := EAT_CRNL\<rparr>)
               else Inr (start_field r c))
      | START_FIELD \<Rightarrow> Inr (start_field r c)
      | IN_FIELD \<Rightarrow>
          (case c of
             None \<Rightarrow> Inr ((parse_save_field r)\<lparr>st := START_RECORD\<rparr>)
           | Some ch \<Rightarrow>
               if ch = LF \<or> ch = CR then Inr ((parse_save_field r)\<lparr>st := EAT_CRNL\<rparr>)
               else if ch = COMMA then Inr ((parse_save_field r)\<lparr>st := START_FIELD\<rparr>)
               else Inr (parse_add_char r ch))
      | IN_QUOTED_FIELD \<Rightarrow>
          (case c of
             None \<Rightarrow> Inr r
           | Some ch \<Rightarrow>
               if ch = DQUOTE then Inr (r\<lparr>st := QUOTE_IN_QUOTED_FIELD\<rparr>)
               else Inr (parse_add_char r ch))
      | QUOTE_IN_QUOTED_FIELD \<Rightarrow>
          (case c of
             None \<Rightarrow> Inr ((parse_save_field r)\<lparr>st := START_RECORD\<rparr>)
           | Some ch \<Rightarrow>
               if ch = DQUOTE then Inr ((parse_add_char r ch)\<lparr>st := IN_QUOTED_FIELD\<rparr>)
               else if ch = COMMA then Inr ((parse_save_field r)\<lparr>st := START_FIELD\<rparr>)
               else if ch = LF \<or> ch = CR then Inr ((parse_save_field r)\<lparr>st := EAT_CRNL\<rparr>)
               else Inr ((parse_add_char r ch)\<lparr>st := IN_FIELD\<rparr>))
      | EAT_CRNL \<Rightarrow>
          (case c of
             None \<Rightarrow> Inr (r\<lparr>st := START_RECORD\<rparr>)
           | Some ch \<Rightarrow> if ch = LF \<or> ch = CR then Inr r else Inl CsvError))"

fun process_line :: "reader \<Rightarrow> string \<Rightarrow> py_error + reader" where
  "process_line r [] = parse_process_char r None"
| "process_line r (c # cs) =
     (case parse_process_char r (Some c) of
        Inl e \<Rightarrow> Inl e
      | Inr r' \<Rightarrow> process_line r' cs)"

text \<open>
  \<open>list(reader)\<close>: a record ends with the line after which the parser is back at the
  start of a record; input that ends inside a quoted field gives a last record.
\<close>

fun csv_reader :: "reader \<Rightarrow> string list \<Rightarrow> py_error + string list list" where
  "csv_reader r [] =
     (if cur_field r \<noteq> [] \<or> st r = IN_QUOTED_FIELD
      then Inr [row_fields (parse_save_field r)] else Inr [])"
| "csv_reader r (line # rest) =
     (case process_line r line of
        Inl e \<Rightarrow> Inl e
      | Inr r' \<Rightarrow>
          if st r' = START_RECORD
          then (case csv_reader parse_reset rest of
                  Inl e \<Rightarrow> Inl e
                | Inr recs \<Rightarrow> Inr (row_fields r' # recs))
          else csv_reader r' rest)"

text \<open>
  \<open>int(x)\<close> on a string: surrounding white space, an optional sign, decimal digits.
  Python also accepts underscores between digits and non-ASCII digits, which the writer
  never produces; here they give \<open>ValueError\<close>.
\<close>

definition is_space :: "char \<Rightarrow> bool" where
  "is_space c = (c = CHR '' '' \<or> c = CHR 0x09 \<or> c = LF \<or> c = CHR 0x0B \<or> c = CHR 0x0C \<or> c = CR)"

definition strip :: "string \<Rightarrow> string" where
  "strip s = rev (dropWhile is_space (rev (dropWhile is_space s)))"

definition digit_value :: "char \<Rightarrow> nat option" where
  "digit_value c = map_of (zip ''0123456789'' [0..<10]) c"

fun digits_value :: "nat \<Rightarrow> string \<Rightarrow> nat option" where
  "digits_value acc [] = Some acc"
| "digits_value acc (c # cs) =
     (case digit_value c of None \<Rightarrow> None | Some d \<Rightarrow> digits_value (10 * acc + d) cs)"

definition py_int :: "string \<Rightarrow> py_error + int" where
  "py_int s =
     (let t = strip s;
          neg = (t \<noteq> [] \<and> hd t = CHR ''-'');
          ds = (if t \<noteq> [] \<and> (hd t = CHR ''-'' \<or> hd t = CHR ''+'') then tl t else t)
      in if ds = [] then Inl ValueError
         else (case digits_value 0 ds of
                 None \<Rightarrow> Inl ValueError
               | Some v \<Rightarrow> Inr (if neg then - int v else int v)))"

fun int_row :: "string list \<Rightarrow> py_error + int list" where
  "int_row [] = Inr []"
| "int_row (x # xs) =
     (case py_int x of
        Inl e \<Rightarrow> Inl e
      | Inr v \<Rightarrow> (case int_row xs of Inl e \<Rightarrow> Inl e | Inr vs \<Rightarrow> Inr (v # vs)))"

fun matrix_rows :: "string list list \<Rightarrow> py_error + int list list" where
  "matrix_rows [] = Inr []"
| "matrix_rows (row # rows) =
     (case int_row (drop 1 row) of
        Inl e \<Rightarrow> Inl e
      | Inr vs \<Rightarrow> (case matrix_rows rows of Inl e \<Rightarrow> Inl e | Inr m \<Rightarrow> Inr (vs # m)))"

text \<open>
  \<open>load_contact_matrix_csv\<close> returns the matrix data and the part names. The rows are
  kept as read; \<open>np.array\<close> on rows of unequal length is outside this model.
\<close>

definition load_contact_matrix_csv :: "string \<Rightarrow> py_error + (int list list \<times> string list)" where
  "load_contact_matrix_csv content =
     (case csv_reader parse_reset (readlines (universal_newlines content) []) of
        Inl e \<Rightarrow> Inl e
      | Inr rows \<Rightarrow>
          (case rows of
             [] \<Rightarrow> Inl IndexError
           | header # data \<Rightarrow>
               (case matrix_rows data of
                  Inl e \<Rightarrow> Inl e
                | Inr matrix_data \<Rightarrow> Inr (matrix_data, drop 1 header))))"

section \<open>The bounding-box filter of the specification\<close>









section \<open>Properties of the matrix builder\<close>

subsection \<open>Entries written by the loops\<close>

lemma square_zeros: "square n (zeros n n)"
  by (simp add: square_def zeros_def list_all_iff)


lemma square_mat_set: "square n M \<Longrightarrow> square n (mat_set M i j v)"
proof (cases "i < length M")
  case True
  assume "square n M"
  with True show ?thesis
    by (auto simp: square_def mat_set_def list_all_length nth_list_update)
next
  case False
  assume "square n M"
  with False show ?thesis by (simp add: mat_set_def list_update_beyond)
qed

lemma mat_set_nth:
  assumes "square n M" "i < n" "j < n" "a < n" "b < n"
  shows "mat_set M i j v ! a ! b = (if a = i \<and> b = j then v else M ! a ! b)"
  using assms by (auto simp: square_def mat_set_def list_all_length nth_list_update)

lemma fold_pair_step:
  assumes "square n M" "i < n" "\<forall>j\<in>set js. j < n"
  shows "square n (fold (\<lambda>j A. if c (ps ! i) (ps ! j) then mat_set (mat_set A i j 1) j i 1 else A) js M)
    \<and> (\<forall>a<n. \<forall>b<n. fold (\<lambda>j A. if c (ps ! i) (ps ! j) then mat_set (mat_set A i j 1) j i 1 else A) js M ! a ! b =
       (if (a = i \<and> b \<in> set js \<and> c (ps ! i) (ps ! b)) \<or> (b = i \<and> a \<in> set js \<and> c (ps ! i) (ps ! a))
        then 1 else M ! a ! b))"
  using assms
proof (induction js arbitrary: M)
  case Nil
  then show ?case by simp
next
  case (Cons j js)
  let ?M' = "if c (ps ! i) (ps ! j) then mat_set (mat_set M i j 1) j i 1 else M"
  have sq': "square n ?M'" using Cons.prems(1) by (simp add: square_mat_set)
  have jn: "j < n" using Cons.prems(3) by simp
  have ent: "\<And>a b. a < n \<Longrightarrow> b < n \<Longrightarrow> ?M' ! a ! b =
      (if c (ps ! i) (ps ! j) \<and> ((a = i \<and> b = j) \<or> (a = j \<and> b = i)) then 1 else M ! a ! b)"
    using Cons.prems(1,2) jn
    by (auto simp: mat_set_nth[where n=n] square_mat_set)
  have IH: "square n (fold (\<lambda>j A. if c (ps ! i) (ps ! j) then mat_set (mat_set A i j 1) j i 1 else A) js ?M')
    \<and> (\<forall>a<n. \<forall>b<n. fold (\<lambda>j A. if c (ps ! i) (ps ! j) then mat_set (mat_set A i j 1) j i 1 else A) js ?M' ! a ! b =
       (if (a = i \<and> b \<in> set js \<and> c (ps ! i) (ps ! b)) \<or> (b = i \<and> a \<in> set js \<and> c (ps ! i) (ps ! a))
        then 1 else ?M' ! a ! b))"
    using Cons.IH[OF sq' Cons.prems(2)] Cons.prems(3) by simp
  show ?case
    apply (simp only: fold_simps)
    using IH ent by auto
qed


lemma contact_row_entry:
  assumes "square (length ps) M" "i < length ps" "a < length ps" "b < length ps"
  shows "contact_row c ps i M ! a ! b =
       (if (a = i \<and> i < b \<and> c (ps ! i) (ps ! b)) \<or> (b = i \<and> i < a \<and> c (ps ! i) (ps ! a))
        then 1 else M ! a ! b)"
proof -
  have "\<forall>j\<in>set [Suc i..<length ps]. j < length ps" by simp
  from fold_pair_step[OF assms(1,2) this, of c ps] assms(3,4)
  show ?thesis unfolding contact_row_def by auto
qed

lemma contact_row_square:
  assumes "square (length ps) M" "i < length ps"
  shows "square (length ps) (contact_row c ps i M)"
proof -
  have "\<forall>j\<in>set [Suc i..<length ps]. j < length ps" by simp
  from fold_pair_step[OF assms(1,2) this, of c ps]
  show ?thesis unfolding contact_row_def by simp
qed

lemma fold_contact_row:
  assumes "square (length ps) M" "\<forall>i\<in>set is. i < length ps"
  shows "square (length ps) (fold (contact_row c ps) is M)
    \<and> (\<forall>a<length ps. \<forall>b<length ps. fold (contact_row c ps) is M ! a ! b =
       (if (a \<in> set is \<and> a < b \<and> c (ps ! a) (ps ! b)) \<or> (b \<in> set is \<and> b < a \<and> c (ps ! b) (ps ! a))
        then 1 else M ! a ! b))"
  using assms
proof (induction "is" arbitrary: M)
  case Nil
  then show ?case by simp
next
  case (Cons i "is")
  have i: "i < length ps" using Cons.prems(2) by simp
  have sq': "square (length ps) (contact_row c ps i M)"
    using contact_row_square[OF Cons.prems(1) i] .
  have IH: "square (length ps) (fold (contact_row c ps) is (contact_row c ps i M))
    \<and> (\<forall>a<length ps. \<forall>b<length ps. fold (contact_row c ps) is (contact_row c ps i M) ! a ! b =
       (if (a \<in> set is \<and> a < b \<and> c (ps ! a) (ps ! b)) \<or> (b \<in> set is \<and> b < a \<and> c (ps ! b) (ps ! a))
        then 1 else contact_row c ps i M ! a ! b))"
    using Cons.IH[OF sq'] Cons.prems(2) by simp
  show ?case
    apply (simp only: fold_simps)
    using IH contact_row_entry[OF Cons.prems(1) i, of _ _ c] by auto
qed

lemma fold_diag:
  assumes "square n M" "\<forall>i\<in>set ks. i < n"
  shows "square n (fold (\<lambda>i A. mat_set A i i v) ks M)
    \<and> (\<forall>a<n. \<forall>b<n. fold (\<lambda>i A. mat_set A i i v) ks M ! a ! b =
        (if a = b \<and> a \<in> set ks then v else M ! a ! b))"
  using assms
proof (induction ks arbitrary: M)
  case Nil
  then show ?case by simp
next
  case (Cons k ks)
  have k: "k < n" using Cons.prems(2) by simp
  have sq': "square n (mat_set M k k v)" using Cons.prems(1) by (rule square_mat_set)
  from Cons.IH[OF sq'] Cons.prems(2) mat_set_nth[OF Cons.prems(1) k k, of _ _ v]
  show ?case by auto
qed

lemma fill_diagonal_entry:
  assumes "square n M" "a < n" "b < n"
  shows "fill_diagonal M v ! a ! b = (if a = b then v else M ! a ! b)"
proof -
  have n: "length M = n" using assms(1) by (simp add: square_def)
  have "\<forall>i\<in>set [0..<length M]. i < n" using n by simp
  from fold_diag[OF assms(1) this, of v] assms(2,3) n
  show ?thesis unfolding fill_diagonal_def by simp
qed

lemma fill_diagonal_square:
  assumes "square n M"
  shows "square n (fill_diagonal M v)"
proof -
  have n: "length M = n" using assms(1) by (simp add: square_def)
  have "\<forall>i\<in>set [0..<length M]. i < n" using n by simp
  from fold_diag[OF assms(1) this, of v]
  show ?thesis unfolding fill_diagonal_def by simp
qed

lemma contact_loops_entry:
  assumes "a < length ps" "b < length ps"
  shows "contact_loops c ps (zeros (length ps) (length ps)) ! a ! b =
       (if (a < b \<and> c (ps ! a) (ps ! b)) \<or> (b < a \<and> c (ps ! b) (ps ! a)) then 1 else 0)"
proof -
  have "\<forall>i\<in>set [0..<length ps]. i < length ps" by simp
  from fold_contact_row[OF square_zeros this, of c] assms
  show ?thesis unfolding contact_loops_def by (simp add: zeros_def)
qed

lemma contact_loops_square:
  "square (length ps) (contact_loops c ps (zeros (length ps) (length ps)))"
proof -
  have "\<forall>i\<in>set [0..<length ps]. i < length ps" by simp
  from fold_contact_row[OF square_zeros this, of c]
  show ?thesis unfolding contact_loops_def by simp
qed

lemma compute_contact_matrix_entry:
  assumes "i < length (parts a)" "j < length (parts a)"
  shows "fst (compute_contact_matrix query a) ! i ! j =
     (if i = j then 1
      else if are_parts_in_contact (tolerance a) query (parts a ! min i j) (parts a ! max i j)
      then 1 else 0)"
  using assms
  by (auto simp: compute_contact_matrix_def Let_def min_def max_def
      fill_diagonal_entry[OF contact_loops_square] contact_loops_entry)

lemma compute_contact_matrix_square:
  "square (length (parts a)) (fst (compute_contact_matrix query a))"
  by (simp add: compute_contact_matrix_def Let_def fill_diagonal_square[OF contact_loops_square])

lemma scenario_matrix:
  "fst (compute_contact_matrix scenario_query scenario) = [[1, 1, 0], [1, 1, 1], [0, 1, 1]]"
  by (simp add: compute_contact_matrix_def scenario_def scenario_query_def Let_def
      fill_diagonal_def contact_loops_def contact_row_def zeros_def mat_set_def
      are_parts_in_contact_def contact_try_body_def upt_rec numeral_3_eq_3 numeral_2_eq_2)

lemma failing_matrix:
  "fst (compute_contact_matrix failing_query scenario) = [[1, 0, 0], [0, 1, 1], [0, 1, 1]]"
  by (simp add: compute_contact_matrix_def scenario_def failing_query_def Let_def
      fill_diagonal_def contact_loops_def contact_row_def zeros_def mat_set_def
      are_parts_in_contact_def contact_try_body_def upt_rec numeral_3_eq_3 numeral_2_eq_2)

subsection \<open>Symmetry, unit diagonal, binary entries\<close>

text \<open>
  Claim C1. For every list of parts and every behaviour of the geometry kernel, the
  matrix returned by \<open>compute_contact_matrix\<close> is square of the size of the part list,
  its entry (i, j) equals its entry (j, i), every diagonal entry is 1, and every entry
  is 0 or 1.
\<close>

theorem compute_contact_matrix_invariants:
  assumes "i < length (parts a)" "j < length (parts a)"
  shows "square (length (parts a)) (fst (compute_contact_matrix query a))
       \<and> fst (compute_contact_matrix query a) ! i ! j = fst (compute_contact_matrix query a) ! j ! i
       \<and> fst (compute_contact_matrix query a) ! i ! i = 1
       \<and> (fst (compute_contact_matrix query a) ! i ! j = 0
          \<or> fst (compute_contact_matrix query a) ! i ! j = 1)"
proof -
  have sym: "min i j = min j i" "max i j = max j i" by (simp_all add: min.commute max.commute)
  show ?thesis
    using assms compute_contact_matrix_square[of a query]
    by (simp add: compute_contact_matrix_entry sym)
qed

theorem compute_contact_matrix_invariants_witness:
  "(0::nat) < length (parts scenario) \<and> (2::nat) < length (parts scenario)
   \<and> square 3 (fst (compute_contact_matrix scenario_query scenario))
   \<and> fst (compute_contact_matrix scenario_query scenario) ! 0 ! 2
       = fst (compute_contact_matrix scenario_query scenario) ! 2 ! 0
   \<and> fst (compute_contact_matrix scenario_query scenario) ! 0 ! 0 = 1
   \<and> (fst (compute_contact_matrix scenario_query scenario) ! 0 ! 2 = 0
      \<or> fst (compute_contact_matrix scenario_query scenario) ! 0 ! 2 = 1)"
proof -
  have h0: "(0::nat) < length (parts scenario)" by (simp add: scenario_def)
  have h2: "(2::nat) < length (parts scenario)" by (simp add: scenario_def)
  have n: "length (parts scenario) = 3" by (simp add: scenario_def)
  show ?thesis
    using h0 h2 compute_contact_matrix_invariants [OF h0 h2, of scenario_query]
    by (auto simp: n)
qed

section \<open>Properties of the pair contact test\<close>

text \<open>
  Claim C3. The contact test on a pair of parts is true exactly when the geometry
  kernel reports a minimum distance and that distance is at most the tolerance; a
  distance equal to the tolerance counts as contact.
\<close>

theorem are_parts_in_contact_iff:
  "(are_parts_in_contact tol query part1 part2
      \<longleftrightarrow> (\<exists>d. query part1 part2 = Done d \<and> d \<le> tol))
   \<and> are_parts_in_contact tol (\<lambda>p q. Done tol) part1 part2"
  by (auto simp: are_parts_in_contact_def contact_try_body_def split: extrema.splits)

text \<open>
  Claim C4. When the distance query of a pair raises or does not converge, the contact
  test of the pair is false instead of an error; the matrix is built whatever number of
  queries fail, and its entry for a pair depends on the query of that pair alone.
\<close>

theorem failed_pairs_are_no_contact:
  "(query part1 part2 = Raises \<or> query part1 part2 = NotDone
      \<longrightarrow> are_parts_in_contact tol query part1 part2 = False)
   \<and> square (length (parts a)) (fst (compute_contact_matrix query a))
   \<and> (\<forall>i j. i < j \<and> j < length (parts a) \<longrightarrow>
         fst (compute_contact_matrix query a) ! i ! j =
           (if \<exists>d. query (parts a ! i) (parts a ! j) = Done d \<and> d \<le> tolerance a
            then 1 else 0))"
proof -
  have "\<And>i j. i < j \<Longrightarrow> j < length (parts a) \<Longrightarrow>
         fst (compute_contact_matrix query a) ! i ! j =
           (if \<exists>d. query (parts a ! i) (parts a ! j) = Done d \<and> d \<le> tolerance a
            then 1 else 0)"
  proof -
    fix i j assume ij: "i < j" "j < length (parts a)"
    then have "i < length (parts a)" "i \<noteq> j" "min i j = i" "max i j = j" by simp_all
    with ij show "fst (compute_contact_matrix query a) ! i ! j =
           (if \<exists>d. query (parts a ! i) (parts a ! j) = Done d \<and> d \<le> tolerance a
            then 1 else 0)"
      by (auto simp: compute_contact_matrix_entry are_parts_in_contact_def contact_try_body_def
          split: extrema.splits)
  qed
  then show ?thesis
    using compute_contact_matrix_square[of a query]
    by (auto simp: are_parts_in_contact_def contact_try_body_def)
qed

theorem failed_pairs_are_no_contact_witness:
  "(failing_query 0 1 = Raises \<or> failing_query 0 1 = NotDone)
   \<and> are_parts_in_contact (1 / 1000) failing_query 0 1 = False
   \<and> (1::nat) < 2 \<and> (2::nat) < length (parts scenario)
   \<and> fst (compute_contact_matrix failing_query scenario) ! 1 ! 2 = 1"
proof -
  have h: "failing_query 0 1 = Raises \<or> failing_query 0 1 = NotDone"
    by (simp add: failing_query_def)
  have b: "(1::nat) < 2 \<and> (2::nat) < length (parts scenario)"
    by (simp add: scenario_def)
  have q: "\<exists>d. failing_query (parts scenario ! 1) (parts scenario ! 2) = Done d
              \<and> d \<le> tolerance scenario"
    by (simp add: failing_query_def scenario_def)
  show ?thesis
    using h b q failed_pairs_are_no_contact [of failing_query 0 1 "1 / 1000" scenario]
    by auto
qed


section \<open>Properties of the loader\<close>

lemma explore_solids:
  "explore (solids ss) k a =
     (True, a\<lparr>parts := parts a @ ss,
              part_names := part_names a @ map (\<lambda>i. ''Part_'' @ str_nat i) [k..<k + length ss]\<rparr>)"
proof (induction ss arbitrary: k a)
  case Nil
  show ?case by (simp add: solids_def)
next
  case (Cons s ss)
  have "[k..<k + length (s # ss)] = k # [Suc k..<Suc k + length ss]"
    using upt_conv_Cons[of k "Suc (k + length ss)"] by simp
  moreover have "explore (solids (s # ss)) k a =
      explore (solids ss) (Suc k)
        (a\<lparr>parts := parts a @ [s], part_names := part_names a @ [''Part_'' @ str_nat k]\<rparr>)"
    by (simp add: solids_def)
  ultimately show ?case using Cons.IH by simp
qed

text \<open>
  Claim C10. When the STEP reader reports a read status other than 1, \<open>load_step_file\<close>
  returns \<open>False\<close> and leaves the analyzer as it was, the part list and the name list
  included; the same holds when reading raises. After a read with status 1 whose
  exploration yields the solids \<open>ss\<close>, it returns \<open>True\<close>, the part list is \<open>ss\<close> and the
  names are \<open>Part_0\<close>, \<open>Part_1\<close>, ... in load order, whatever the lists held before.
  Any call that does not return \<open>False\<close> with the analyzer unchanged had read status 1.
\<close>

theorem load_step_file_status:
  "(status \<noteq> 1 \<longrightarrow> load_step_file (ReadFile status t) a = (False, a))
   \<and> load_step_file ReadFileRaises a = (False, a)
   \<and> load_step_file (ReadFile 1 (OneShape (solids ss))) a =
       (True, a\<lparr>parts := ss, part_names := map (\<lambda>i. ''Part_'' @ str_nat i) [0..<length ss]\<rparr>)
   \<and> (load_step_file reader a \<noteq> (False, a) \<longrightarrow> (\<exists>t. reader = ReadFile 1 t))"
proof -
  have "\<exists>t. reader = ReadFile 1 t" if "load_step_file reader a \<noteq> (False, a)"
    using that by (cases reader) (auto simp: load_step_file_def split: if_splits)
  then show ?thesis
    by (simp add: load_step_file_def explore_solids)
qed

theorem load_step_file_status_witness:
  "(0::int) \<noteq> 1
   \<and> load_step_file (ReadFile 0 (OneShape (solids [7, 8::nat]))) scenario = (False, scenario)
   \<and> load_step_file (ReadFile 1 (OneShape (solids [7, 8::nat]))) scenario =
       (True, scenario\<lparr>parts := [7, 8], part_names := [''Part_0'', ''Part_1'']\<rparr>)"
proof -
  have h: "(0::int) \<noteq> 1" by simp
  have u: "[0..<length [7, 8::nat]] = [0, 1]" by (simp add: upt_rec)
  show ?thesis
    using h load_step_file_status [of 0 "OneShape (solids [7, 8::nat])" scenario "[7, 8]"]
    by (simp add: u digit_char_def)
qed

section \<open>Properties of the statistics\<close>

text \<open>
  Claim C2. On the matrix of the three-part assembly, with one contact between parts 0
  and 1 and one between parts 1 and 2, \<open>analyze_contact_matrix_properties\<close> reports 3
  contacts and density 1, not 2 and 2/3: it halves the sum of the whole matrix, unit
  diagonal included. The graph that \<open>get_contact_graph\<close> builds from the same matrix
  has 2 edges.
\<close>

theorem analyze_three_part_assembly:
  "analyze_contact_matrix_properties [[1, 1, 0], [1, 1, 1], [0, 1, 1]] =
     Inr \<lparr>n_parts = 3, total_contacts = 3, contact_density = 1, max_connections = 2,
          min_connections = 1, avg_connections = 4 / 3, isolated_parts = 0\<rparr>
   \<and> get_contact_graph (scenario\<lparr>contact_matrix := Some [[1, 1, 0], [1, 1, 1], [0, 1, 1]]\<rparr>) =
     Inr \<lparr>nodes = [(0, Some ''Part_0''), (1, Some ''Part_1''), (2, Some ''Part_2'')],
          edges = [(0, 1), (1, 2)]\<rparr>
   \<and> number_of_edges \<lparr>nodes = [(0, Some ''Part_0''), (1, Some ''Part_1''), (2, Some ''Part_2'')],
          edges = [(0, 1), (1, 2)]\<rparr> = 2"
  by (simp add: analyze_contact_matrix_properties_def np_sum_def np_mean_def Let_def
      get_contact_graph_def scenario_def upt_rec numeral_3_eq_3 numeral_2_eq_2
      mat_read_def add_node_def has_node_def empty_graph_def add_edge_def touch_node_def
      has_edge_def number_of_edges_def)

text \<open>
  Claim C5. On the matrix of an assembly without parts, the 0 by 0 matrix that
  \<open>compute_contact_matrix\<close> returns for an empty part list,
  \<open>analyze_contact_matrix_properties\<close> does not return statistics: the maximum of the
  empty degree sequence raises \<open>ValueError\<close>.
\<close>

theorem analyze_empty_matrix_raises:
  "fst (compute_contact_matrix query (init_analyzer tol)) = []
   \<and> analyze_contact_matrix_properties [] = Inl ValueError"
  by (simp add: analyze_contact_matrix_properties_def Let_def compute_contact_matrix_def
      init_analyzer_def zeros_def fill_diagonal_def contact_loops_def)

text \<open>
  Claim C6. On the symmetric 0/1 matrix with unit diagonal of two parts in contact,
  \<open>analyze_contact_matrix_properties\<close> reports 2 contacts out of 1 possible and density
  2, outside the interval from 0 to 1. On the 1 by 1 matrix the density is 0.
\<close>

theorem analyze_two_parts_density:
  "analyze_contact_matrix_properties [[1, 1], [1, 1]] =
     Inr \<lparr>n_parts = 2, total_contacts = 2, contact_density = 2, max_connections = 1,
          min_connections = 1, avg_connections = 1, isolated_parts = 0\<rparr>
   \<and> analyze_contact_matrix_properties [[1]] =
     Inr \<lparr>n_parts = 1, total_contacts = 0, contact_density = 0, max_connections = 0,
          min_connections = 0, avg_connections = 0, isolated_parts = 1\<rparr>"
  by (simp add: analyze_contact_matrix_properties_def np_sum_def np_mean_def Let_def)

section \<open>Properties of the graph construction\<close>

lemma edge_scan_ok:
  "i < length M \<Longrightarrow> \<forall>j\<in>set js. j < length (M ! i) \<Longrightarrow> \<exists>G'. edge_scan M i js G = Inr G'"
  by (induction js arbitrary: G) (simp_all add: mat_read_def)

lemma edge_rows_ok:
  assumes "square m M" "n \<le> m" "\<forall>i\<in>set is. i < n"
  shows "\<exists>G'. edge_rows M n is G = Inr G'"
  using assms(3)
proof (induction "is" arbitrary: G)
  case Nil
  show ?case by simp
next
  case (Cons i "is")
  have i: "i < length M" using Cons.prems assms(1,2) by (simp add: square_def)
  have "\<forall>j\<in>set [Suc i..<n]. j < length (M ! i)"
    using assms(1,2) i by (simp add: square_def list_all_length)
  from edge_scan_ok[OF i this] obtain G' where "edge_scan M i [Suc i..<n] G = Inr G'" by blast
  moreover from Cons.IH Cons.prems obtain G'' where "edge_rows M n is G' = Inr G''" by auto
  ultimately show ?case by simp
qed

text \<open>
  Claim C7, as the code has it. \<open>get_contact_graph\<close> never compares the number of part
  names with the size of the matrix. Without a matrix it fails with \<open>ValueError\<close>; with
  a square matrix at least as large as the part list it returns a graph for every list
  of names, of any length.
\<close>

theorem get_contact_graph_any_names:
  "(contact_matrix a = None \<longrightarrow> get_contact_graph (a\<lparr>part_names := names\<rparr>) = Inl ValueError)
   \<and> (contact_matrix a = Some M \<and> square (length M) M \<and> length (parts a) \<le> length M
        \<longrightarrow> (\<exists>G. get_contact_graph (a\<lparr>part_names := names\<rparr>) = Inr G))"
proof -
  have "\<exists>G. edge_rows M (length (parts a)) [0..<length (parts a)] G0 = Inr G"
    if "square (length M) M" "length (parts a) \<le> length M" for G0
    using edge_rows_ok[OF that, of "[0..<length (parts a)]" G0] by simp
  then show ?thesis
    by (auto simp: get_contact_graph_def Let_def)
qed

theorem get_contact_graph_any_names_witness:
  "contact_matrix (init_analyzer 0 :: nat analyzer) = None
   \<and> get_contact_graph ((init_analyzer 0 :: nat analyzer)\<lparr>part_names := [''A'']\<rparr>) = Inl ValueError
   \<and> contact_matrix (scenario\<lparr>contact_matrix := Some [[1, 1, 0], [1, 1, 1], [0, 1, 1]]\<rparr>)
       = Some [[1, 1, 0], [1, 1, 1], [0, 1, 1]]
   \<and> square (length [[1, 1, 0], [1, 1, 1], [0, 1, 1::int]]) [[1, 1, 0], [1, 1, 1], [0, 1, 1]]
   \<and> length (parts (scenario\<lparr>contact_matrix := Some [[1, 1, 0], [1, 1, 1], [0, 1, 1]]\<rparr>))
       \<le> length [[1, 1, 0], [1, 1, 1], [0, 1, 1::int]]
   \<and> (\<exists>G. get_contact_graph
             (scenario\<lparr>contact_matrix := Some [[1, 1, 0], [1, 1, 1], [0, 1, 1]],
                       part_names := [''A'']\<rparr>) = Inr G)"
proof -
  have n: "contact_matrix (init_analyzer 0 :: nat analyzer) = None"
    by (simp add: init_analyzer_def)
  have m: "contact_matrix (scenario\<lparr>contact_matrix := Some [[1, 1, 0], [1, 1, 1], [0, 1, 1]]\<rparr>)
       = Some [[1, 1, 0], [1, 1, 1], [0, 1, 1]]" by simp
  have s: "square (length [[1, 1, 0], [1, 1, 1], [0, 1, 1::int]]) [[1, 1, 0], [1, 1, 1], [0, 1, 1]]"
    by (simp add: square_def)
  have l: "length (parts (scenario\<lparr>contact_matrix := Some [[1, 1, 0], [1, 1, 1], [0, 1, 1]]\<rparr>))
       \<le> length [[1, 1, 0], [1, 1, 1], [0, 1, 1::int]]" by (simp add: scenario_def)
  show ?thesis
    using n m s l
      get_contact_graph_any_names [of "init_analyzer 0 :: nat analyzer" "[''A'']"]
      get_contact_graph_any_names
        [of "scenario\<lparr>contact_matrix := Some [[1, 1, 0], [1, 1, 1], [0, 1, 1]]\<rparr>"
            "[''A'']" "[[1, 1, 0], [1, 1, 1], [0, 1, 1]]"]
    by simp
qed

theorem get_contact_graph_short_names_counterexample:
  "length [''A''] \<noteq> length [[1, 1], [1, 1::int]]
   \<and> get_contact_graph
       \<lparr>tolerance = 0, parts = [0, 1::nat], contact_matrix = Some [[1, 1], [1, 1]],
        part_names = [''A'']\<rparr> =
     Inr \<lparr>nodes = [(0, Some ''A''), (1, None)], edges = [(0, 1)]\<rparr>"
  by (simp add: get_contact_graph_def Let_def upt_rec numeral_2_eq_2
      mat_read_def add_node_def has_node_def empty_graph_def add_edge_def touch_node_def has_edge_def)


section \<open>Properties of the CSV round trip\<close>

lemma csv_round_trip_example:
  "export_contact_matrix_csv [[1, 0], [0, 1]] [''a,b'', [CHR ''c'', DQUOTE, LF, CHR ''d'']] =
     Inr (COMMA # DQUOTE # ''a,b'' @ [DQUOTE, COMMA, DQUOTE, CHR ''c'', DQUOTE, DQUOTE, LF,
            CHR ''d'', DQUOTE, CR, LF]
          @ DQUOTE # ''a,b'' @ DQUOTE # '',1,0'' @ [CR, LF]
          @ [DQUOTE, CHR ''c'', DQUOTE, DQUOTE, LF, CHR ''d'', DQUOTE] @ '',0,1'' @ [CR, LF])
   \<and> load_contact_matrix_csv
       (COMMA # DQUOTE # ''a,b'' @ [DQUOTE, COMMA, DQUOTE, CHR ''c'', DQUOTE, DQUOTE, LF,
            CHR ''d'', DQUOTE, CR, LF]
          @ DQUOTE # ''a,b'' @ DQUOTE # '',1,0'' @ [CR, LF]
          @ [DQUOTE, CHR ''c'', DQUOTE, DQUOTE, LF, CHR ''d'', DQUOTE] @ '',0,1'' @ [CR, LF]) =
     Inr ([[1, 0], [0, 1]], [''a,b'', [CHR ''c'', DQUOTE, LF, CHR ''d'']])"
  by code_simp

text \<open>
  Claim C9. Exporting the 1 by 1 matrix of a part whose name holds a carriage return
  and importing the exported text gives back the matrix but not the name: the name is
  written as it is inside quotes, and the import reads the file with universal
  newlines, which turn its carriage return into a line feed.
\<close>

theorem csv_round_trip_carriage_return:
  "export_contact_matrix_csv [[1]] [[CHR ''a'', CR, CHR ''b'']] =
     Inr [COMMA, DQUOTE, CHR ''a'', CR, CHR ''b'', DQUOTE, CR, LF,
          DQUOTE, CHR ''a'', CR, CHR ''b'', DQUOTE, COMMA, CHR ''1'', CR, LF]
   \<and> load_contact_matrix_csv
       [COMMA, DQUOTE, CHR ''a'', CR, CHR ''b'', DQUOTE, CR, LF,
        DQUOTE, CHR ''a'', CR, CHR ''b'', DQUOTE, COMMA, CHR ''1'', CR, LF] =
     Inr ([[1]], [[CHR ''a'', LF, CHR ''b'']])
   \<and> [CHR ''a'', LF, CHR ''b''] \<noteq> [CHR ''a'', CR, CHR ''b'']"
  by code_simp


section \<open>Properties of the bounding-box filter\<close>










end
